theory Spec2Isabelle
  imports Complex_Main
begin

section \<open>Order pricing, webhook reconciliation and top ranking of the Vechnost API\<close>

text \<open>
  A shallow embedding of the endpoints \<^verbatim>\<open>create_order\<close>, \<^verbatim>\<open>payment_webhook\<close>,
  \<^verbatim>\<open>calc_total\<close> and \<^verbatim>\<open>top_ranking\<close> of \<^verbatim>\<open>main.py\<close>, with the request models of
  \<^verbatim>\<open>schemas.py\<close>.

  Conventions of the model:
  \<^item> a Python \<^verbatim>\<open>float\<close> is an exact rational number (no binary representation error,
    no overflow, no NaN);
  \<^item> a raised exception is the left summand of the result, and every endpoint returns
    the database next to its result, so that what an endpoint wrote before raising
    (or that it wrote nothing) is visible;
  \<^item> the clock readings \<^verbatim>\<open>datetime.now(timezone.utc)\<close> and the identifier which the
    driver generates for an inserted document are arguments of the endpoint.
\<close>

subsection \<open>Numbers\<close>

type_synonym datetime = nat

text \<open>The nearest integer, a tie going to the even neighbour.\<close>

definition round_half_even :: "rat \<Rightarrow> int" where
  "round_half_even y =
     (let f = \<lfloor>y\<rfloor>;
          d = y - of_int f
      in if d < 1 / 2 then f
         else if 1 / 2 < d then f + 1
         else if even f then f
         else f + 1)"

text \<open>
  The builtin \<^verbatim>\<open>round(x, ndigits)\<close> for \<open>ndigits \<ge> 0\<close>: the nearest multiple of
  \<open>10 ^ -ndigits\<close>, a tie going to the even neighbour.
\<close>

definition py_round :: "rat \<Rightarrow> nat \<Rightarrow> rat" where
  "py_round x ndigits = of_int (round_half_even (x * 10 ^ ndigits)) / 10 ^ ndigits"

subsection \<open>Errors\<close>

text \<open>
  \<^verbatim>\<open>HTTPException(status_code, detail)\<close> is what the endpoints raise themselves;
  the other two are the driver's exceptions, which the endpoints do not catch.
\<close>

datatype error =
    HTTPException nat string
  | DuplicateKeyError
  | OperationFailure

abbreviation BadRequest :: "string \<Rightarrow> error" where
  "BadRequest detail \<equiv> HTTPException 400 detail"

abbreviation NotFound :: "string \<Rightarrow> error" where
  "NotFound detail \<equiv> HTTPException 404 detail"

subsection \<open>Object identifiers\<close>

text \<open>
  \<^verbatim>\<open>bson.ObjectId\<close> is a type of the database driver's library. For a string, its
  constructor demands 24 characters and hands them to \<^verbatim>\<open>bytes.fromhex\<close>; it raises when
  the length is another or \<^verbatim>\<open>bytes.fromhex\<close> raises, and checks nothing else. Two
  identifiers are equal when their bytes are, and \<^verbatim>\<open>str\<close> prints the bytes as lower-case
  hexadecimal digits. An identifier is kept as its printed form.
\<close>

type_synonym object_id = string

definition is_hex :: "char \<Rightarrow> bool" where
  "is_hex c = (c \<in> set ''0123456789abcdefABCDEF'')"

text \<open>ASCII whitespace: space, tab, line feed, vertical tab, form feed, carriage return.\<close>

definition is_space :: "char \<Rightarrow> bool" where
  "is_space c = (of_char c \<in> {32, 9, 10, 11, 12, 13 :: nat})"

definition hex_lower :: "char \<Rightarrow> char" where
  "hex_lower c =
     (if c = CHR ''A'' then CHR ''a''
      else if c = CHR ''B'' then CHR ''b''
      else if c = CHR ''C'' then CHR ''c''
      else if c = CHR ''D'' then CHR ''d''
      else if c = CHR ''E'' then CHR ''e''
      else if c = CHR ''F'' then CHR ''f''
      else c)"

text \<open>
  \<^verbatim>\<open>bytes.fromhex\<close>: the bytes are pairs of hexadecimal digits; whitespace is skipped in
  front of a pair and at the end, and nowhere else. The result is the digits of the
  bytes; \<open>None\<close> is \<^verbatim>\<open>ValueError\<close>.
\<close>

fun fromhex :: "string \<Rightarrow> string option" where
  "fromhex [] = Some []"
| "fromhex (c # cs) =
     (if is_space c then fromhex cs
      else if is_hex c then
        (case cs of
           [] \<Rightarrow> None
         | d # ds \<Rightarrow>
             (if is_hex d then map_option (\<lambda>r. c # d # r) (fromhex ds) else None))
      else None)"

definition ObjectId :: "string \<Rightarrow> object_id option" where
  "ObjectId s =
     (if length s = 24 then map_option (map hex_lower) (fromhex s) else None)"

text \<open>The helper \<^verbatim>\<open>oid\<close>: every failure of the constructor becomes a 400.\<close>

definition oid :: "string \<Rightarrow> error + object_id" where
  "oid s =
     (case ObjectId s of
        None \<Rightarrow> Inl (HTTPException 400 ''Invalid id'')
      | Some i \<Rightarrow> Inr i)"

subsection \<open>Documents and request models\<close>

datatype provider = Vip | Digiflazz | Manual

datatype gateway = Tripay | Tokopay | ManualGateway

datatype order_status = Pending | Paid | Processing | Success | Failed | Refunded

text \<open>
  The fields of a stored product and of a stored payment method which the endpoints
  read. A field which the code reads with \<^verbatim>\<open>.get\<close> is optional: \<open>None\<close> is a document
  without it (or, for \<open>p_provider\<close> and \<open>pm_gateway\<close>, holding \<^verbatim>\<open>None\<close>).
\<close>

record product =
  p_id :: object_id
  p_title :: "string option"
  p_price :: "rat option"
  p_provider :: "provider option"

record payment_method =
  pm_code :: string
  pm_gateway :: "gateway option"
  pm_fee_percent :: "rat option"
  pm_fee_flat :: "rat option"
  pm_is_active :: bool

text \<open>The request model \<^verbatim>\<open>Order\<close> of \<^verbatim>\<open>schemas.py\<close>, after validation.\<close>

record order =
  user_id :: "string option"
  product_id :: string
  amount :: int
  target_id :: "string option"
  status :: order_status
  provider :: "provider option"
  payment_method_code :: "string option"
  payment_reference :: "string option"
  payment_url :: "string option"
  total_price :: rat
  order_note :: "string option"

text \<open>
  A stored order: the dumped request model, the two timestamps which \<^verbatim>\<open>create_order\<close>
  adds, and the \<^verbatim>\<open>_id\<close> of the document.
\<close>

record order_doc = order +
  created_at :: datetime
  updated_at :: datetime
  doc_id :: object_id

text \<open>
  The database: the three collections which the endpoints below touch. Every other
  collection is in the extension of the record.
\<close>

record db =
  coll_product :: "product list"
  coll_paymentmethod :: "payment_method list"
  coll_order :: "order_doc list"

subsection \<open>Collection operations\<close>

text \<open>
  Modelled from the spec: the handle \<^verbatim>\<open>db\<close> comes from \<^verbatim>\<open>database.py\<close>, which is not
  among the sources, and its collections are the driver's. A collection is the list of
  its documents in insertion order. \<^verbatim>\<open>find_one\<close> returns the first document matching the
  filter, \<^verbatim>\<open>update_one\<close> changes the first document matching the filter, and
  \<^verbatim>\<open>insert_one\<close> appends a document unless its \<^verbatim>\<open>_id\<close> is in use.
\<close>

definition find_one :: "('a \<Rightarrow> bool) \<Rightarrow> 'a list \<Rightarrow> 'a option" where
  "find_one flt coll = List.find flt coll"

fun update_one :: "('a \<Rightarrow> bool) \<Rightarrow> ('a \<Rightarrow> 'a) \<Rightarrow> 'a list \<Rightarrow> 'a list" where
  "update_one flt upd [] = []"
| "update_one flt upd (d # ds) =
     (if flt d then upd d # ds else d # update_one flt upd ds)"

definition insert_one :: "order_doc \<Rightarrow> order_doc list \<Rightarrow> error + order_doc list" where
  "insert_one d coll =
     (if doc_id d \<in> set (map doc_id coll) then Inl DuplicateKeyError
      else Inr (coll @ [d]))"

subsection \<open>Truthiness\<close>

text \<open>An optional string is falsy when it is \<^verbatim>\<open>None\<close> or empty.\<close>

fun truthy :: "string option \<Rightarrow> bool" where
  "truthy None = False"
| "truthy (Some s) = (s \<noteq> [])"

subsection \<open>\<^verbatim>\<open>create_order\<close>\<close>

record order_created =
  r_id :: string
  r_payment_url :: "string option"
  r_total_price :: rat

fun gateway_str :: "gateway \<Rightarrow> string" where
  "gateway_str Tripay = ''tripay''"
| "gateway_str Tokopay = ''tokopay''"
| "gateway_str ManualGateway = ''manual''"

text \<open>The gateway of a payment method when it is one of \<^verbatim>\<open>("tripay", "tokopay")\<close>.\<close>

fun mock_gateway :: "payment_method option \<Rightarrow> gateway option" where
  "mock_gateway None = None"
| "mock_gateway (Some m) =
     (case pm_gateway m of
        Some Tripay \<Rightarrow> Some Tripay
      | Some Tokopay \<Rightarrow> Some Tokopay
      | _ \<Rightarrow> None)"

text \<open>The local \<^verbatim>\<open>base\<close> of \<^verbatim>\<open>create_order\<close>: the price of the product times the amount.\<close>

definition order_base :: "product \<Rightarrow> order \<Rightarrow> rat" where
  "order_base prd ordr =
     (case p_price prd of None \<Rightarrow> 0 | Some x \<Rightarrow> x) * of_int (amount ordr)"

text \<open>
  The local \<^verbatim>\<open>total\<close> of \<^verbatim>\<open>create_order\<close>, before rounding: the base, with the fees of
  the payment method when one was resolved.
\<close>

definition order_total :: "payment_method option \<Rightarrow> rat \<Rightarrow> rat" where
  "order_total pm b =
     (case pm of
        None \<Rightarrow> b
      | Some m \<Rightarrow>
          b + b * (case pm_fee_percent m of None \<Rightarrow> 0 | Some f \<Rightarrow> f) / 100
            + (case pm_fee_flat m of None \<Rightarrow> 0 | Some c \<Rightarrow> c))"

text \<open>
  \<open>new_id\<close> is the identifier generated for the inserted document, \<open>now_c\<close> and \<open>now_u\<close>
  are the two readings of the clock.
\<close>

definition create_order ::
  "'z db_scheme \<Rightarrow> order \<Rightarrow> object_id \<Rightarrow> datetime \<Rightarrow> datetime
     \<Rightarrow> (error + order_created) \<times> 'z db_scheme" where
  "create_order s ordr new_id now_c now_u =
     (case oid (product_id ordr) of
        Inl e \<Rightarrow> (Inl e, s)
      | Inr pid \<Rightarrow>
     (case find_one (\<lambda>p. p_id p = pid) (coll_product s) of
        None \<Rightarrow> (Inl (HTTPException 404 ''Product not found''), s)
      | Some prd \<Rightarrow>
          let base = order_base prd ordr;
              pm = (if truthy (payment_method_code ordr)
                    then find_one
                           (\<lambda>m. Some (pm_code m) = payment_method_code ordr \<and> pm_is_active m)
                           (coll_paymentmethod s)
                    else None);
              total = order_total pm base;
              payload =
                \<lparr> user_id = user_id ordr,
                  product_id = product_id ordr,
                  amount = amount ordr,
                  target_id = target_id ordr,
                  status = Pending,
                  provider =
                    (case provider ordr of
                       Some v \<Rightarrow> Some v
                     | None \<Rightarrow>
                         (case p_provider prd of Some v \<Rightarrow> Some v | None \<Rightarrow> Some Manual)),
                  payment_method_code = payment_method_code ordr,
                  payment_reference = payment_reference ordr,
                  payment_url = payment_url ordr,
                  total_price = py_round total 2,
                  order_note = order_note ordr,
                  created_at = now_c,
                  updated_at = now_u,
                  doc_id = new_id \<rparr>
          in (case insert_one payload (coll_order s) of
                Inl e \<Rightarrow> (Inl e, s)
              | Inr inserted \<Rightarrow>
                  let pay_url =
                        (case mock_gateway pm of
                           None \<Rightarrow> None
                         | Some g \<Rightarrow> Some (''https://pay.mock/'' @ gateway_str g @ ''/'' @ new_id));
                      written =
                        (case pay_url of
                           None \<Rightarrow> inserted
                         | Some u \<Rightarrow>
                             update_one (\<lambda>d. doc_id d = new_id)
                               (\<lambda>d. d\<lparr>payment_url := Some u\<rparr>) inserted)
                  in (Inr \<lparr> r_id = new_id,
                            r_payment_url = pay_url,
                            r_total_price = total_price payload \<rparr>,
                      s\<lparr>coll_order := written\<rparr>))))"

subsection \<open>\<^verbatim>\<open>payment_webhook\<close>\<close>

datatype webhook_status = WPaid | WFailed | WPending

fun status_of :: "webhook_status \<Rightarrow> order_status" where
  "status_of WPaid = Paid"
| "status_of WFailed = Failed"
| "status_of WPending = Pending"

record webhook_in =
  w_reference :: "string option"
  w_status :: webhook_status

text \<open>
  \<open>query_reference\<close> is \<^verbatim>\<open>request.query_params.get("reference")\<close>. The lookup by
  identifier swallows the failure of \<^verbatim>\<open>oid\<close>.
\<close>

definition payment_webhook ::
  "'z db_scheme \<Rightarrow> webhook_in \<Rightarrow> string option \<Rightarrow> datetime
     \<Rightarrow> (error + bool) \<times> 'z db_scheme" where
  "payment_webhook s payload query_reference now =
     (let ref = (if truthy (w_reference payload) then w_reference payload
                 else query_reference)
      in if \<not> truthy ref then (Inl (HTTPException 400 ''Missing reference''), s)
         else
           let found =
                 (case find_one (\<lambda>d. payment_reference d = ref) (coll_order s) of
                    Some d \<Rightarrow> Some d
                  | None \<Rightarrow>
                      (case ref of
                         None \<Rightarrow> None
                       | Some r \<Rightarrow>
                           (case oid r of
                              Inl e \<Rightarrow> None
                            | Inr i \<Rightarrow> find_one (\<lambda>d. doc_id d = i) (coll_order s))))
           in (case found of
                 None \<Rightarrow> (Inl (HTTPException 404 ''Order not found''), s)
               | Some d \<Rightarrow>
                   (Inr True,
                    s\<lparr>coll_order :=
                        update_one (\<lambda>x. doc_id x = doc_id d)
                          (\<lambda>x. x\<lparr>status := status_of (w_status payload), updated_at := now\<rparr>)
                          (coll_order s)\<rparr>)))"

subsection \<open>\<^verbatim>\<open>calc_total\<close>\<close>

record calc_in =
  c_price :: rat
  c_amount :: int
  c_fee_percent :: rat
  c_fee_flat :: rat

record calc_out =
  base :: rat
  total :: rat

definition calc_total :: "calc_in \<Rightarrow> calc_out" where
  "calc_total payload =
     (let b = c_price payload * of_int (c_amount payload);
          t = b + b * c_fee_percent payload / 100 + c_fee_flat payload
      in \<lparr> base = py_round b 2, total = py_round t 2 \<rparr>)"

subsection \<open>\<^verbatim>\<open>top_ranking\<close>\<close>

record group_row =
  g_id :: string
  g_orders :: nat
  g_revenue :: rat

text \<open>
  Modelled from the spec: the stages of the aggregation pipeline are the database's.
  \<^verbatim>\<open>$group\<close> yields one row for each distinct \<^verbatim>\<open>product_id\<close>, with the number of the
  orders holding it and the sum of their \<^verbatim>\<open>total_price\<close>; \<^verbatim>\<open>$sort\<close> orders the rows by
  \<^verbatim>\<open>orders\<close>, largest first (the database leaves the order of equal rows open, the model
  keeps them as they were); \<^verbatim>\<open>$limit\<close> keeps the first rows and rejects a limit which
  is not positive.
\<close>

definition aggregate_group :: "order_doc list \<Rightarrow> group_row list" where
  "aggregate_group coll =
     map (\<lambda>k. \<lparr> g_id = k,
                g_orders = length (filter (\<lambda>d. product_id d = k) coll),
                g_revenue = sum_list (map total_price (filter (\<lambda>d. product_id d = k) coll)) \<rparr>)
       (remdups (map product_id coll))"

definition aggregate_sort :: "group_row list \<Rightarrow> group_row list" where
  "aggregate_sort rows = sort_key (\<lambda>r. - int (g_orders r)) rows"

definition aggregate_limit :: "int \<Rightarrow> group_row list \<Rightarrow> error + group_row list" where
  "aggregate_limit limit rows =
     (if limit \<le> 0 then Inl OperationFailure else Inr (take (nat limit) rows))"

record ranking_entry =
  e_product_id :: string
  e_product_title :: "string option"
  e_orders :: nat
  e_revenue :: rat

text \<open>The loop over the rows of the aggregation; a failure of \<^verbatim>\<open>oid\<close> is not caught.\<close>

fun ranking_rows :: "product list \<Rightarrow> group_row list \<Rightarrow> error + ranking_entry list" where
  "ranking_rows prods [] = Inr []"
| "ranking_rows prods (r # rs) =
     (case (if g_id r \<noteq> []
            then (case oid (g_id r) of
                    Inl e \<Rightarrow> Inl e
                  | Inr i \<Rightarrow> Inr (find_one (\<lambda>p. p_id p = i) prods))
            else Inr None) of
        Inl e \<Rightarrow> Inl e
      | Inr prd \<Rightarrow>
          (case ranking_rows prods rs of
             Inl e \<Rightarrow> Inl e
           | Inr out \<Rightarrow>
               Inr (\<lparr> e_product_id = g_id r,
                       e_product_title = (case prd of None \<Rightarrow> None | Some p \<Rightarrow> p_title p),
                       e_orders = g_orders r,
                       e_revenue = py_round (g_revenue r) 2 \<rparr> # out)))"

text \<open>\<open>limit_param\<close> is the query parameter \<^verbatim>\<open>limit\<close>, 10 when absent.\<close>

definition top_ranking :: "'z db_scheme \<Rightarrow> int option \<Rightarrow> error + ranking_entry list" where
  "top_ranking s limit_param =
     (let limit = (case limit_param of None \<Rightarrow> 10 | Some l \<Rightarrow> l)
      in (case aggregate_limit limit (aggregate_sort (aggregate_group (coll_order s))) of
            Inl e \<Rightarrow> Inl e
          | Inr res \<Rightarrow> ranking_rows (coll_product s) res))"

subsection \<open>Example data\<close>

text \<open>
  A small shop: a product of price 100000 and one of price 0.004, a payment method with
  a fee of 2 percent plus 1000 on a mock gateway, and one without fees.
\<close>

definition ex_pid :: object_id where
  "ex_pid = ''64b7f0a1c2d3e4f5a6b7c8d9''"

definition ex_cheap_pid :: object_id where
  "ex_cheap_pid = ''64b7f0a1c2d3e4f5a6b7c8da''"

definition ex_new_id :: object_id where
  "ex_new_id = ''64b7f0a1c2d3e4f5a6b7c8db''"

definition ex_product :: product where
  "ex_product =
     \<lparr> p_id = ex_pid, p_title = Some ''Diamonds'', p_price = Some 100000,
       p_provider = Some Vip \<rparr>"

definition ex_cheap :: product where
  "ex_cheap =
     \<lparr> p_id = ex_cheap_pid, p_title = Some ''Token'', p_price = Some (1 / 250),
       p_provider = None \<rparr>"

definition ex_method :: payment_method where
  "ex_method =
     \<lparr> pm_code = ''qris'', pm_gateway = Some Tripay, pm_fee_percent = Some 2,
       pm_fee_flat = Some 1000, pm_is_active = True \<rparr>"

definition ex_cash :: payment_method where
  "ex_cash =
     \<lparr> pm_code = ''cash'', pm_gateway = Some ManualGateway, pm_fee_percent = Some 0,
       pm_fee_flat = Some 0, pm_is_active = True \<rparr>"

definition ex_db :: db where
  "ex_db =
     \<lparr> coll_product = [ex_product, ex_cheap],
       coll_paymentmethod = [ex_method, ex_cash],
       coll_order = [] \<rparr>"

text \<open>
  A request for two units of the first product, paid by the method \<^verbatim>\<open>qris\<close>; the client
  has filled in a status and a total of its own.
\<close>

definition ex_request :: order where
  "ex_request =
     \<lparr> user_id = None, product_id = ex_pid, amount = 2, target_id = Some ''player-7'',
       status = Success, provider = None, payment_method_code = Some ''qris'',
       payment_reference = None, payment_url = None, total_price = 1,
       order_note = None \<rparr>"

text \<open>A stored order, as \<^verbatim>\<open>create_order\<close> writes it.\<close>

definition ex_stored ::
  "object_id \<Rightarrow> string \<Rightarrow> order_status \<Rightarrow> string option \<Rightarrow> rat \<Rightarrow> order_doc" where
  "ex_stored i pid st ref tp =
     \<lparr> user_id = None, product_id = pid, amount = 1, target_id = None, status = st,
       provider = Some Manual, payment_method_code = None, payment_reference = ref,
       payment_url = None, total_price = tp, order_note = None, created_at = 10,
       updated_at = 10, doc_id = i \<rparr>"

text \<open>A shop with history: three orders of the first product, five of the second.\<close>

definition ex_shop :: db where
  "ex_shop =
     \<lparr> coll_product = [ex_product, ex_cheap],
       coll_paymentmethod = [ex_method, ex_cash],
       coll_order =
         [ ex_stored ''0000000000000000000000a1'' ex_pid Paid (Some ''INV-1'') 205000,
           ex_stored ''0000000000000000000000b1'' ex_cheap_pid Pending None (1 / 100),
           ex_stored ''0000000000000000000000b2'' ex_cheap_pid Paid None (1 / 100),
           ex_stored ''0000000000000000000000a2'' ex_pid Failed (Some ''INV-2'') 100000,
           ex_stored ''0000000000000000000000b3'' ex_cheap_pid Failed None (1 / 50),
           ex_stored ''0000000000000000000000b4'' ex_cheap_pid Pending None (1 / 100),
           ex_stored ''0000000000000000000000a3'' ex_pid Pending None 100000,
           ex_stored ''0000000000000000000000b5'' ex_cheap_pid Refunded None (1 / 100) ] \<rparr>"

section \<open>Properties\<close>

subsection \<open>Auxiliary facts\<close>

lemma find_one_None_iff: "find_one flt coll = None \<longleftrightarrow> (\<forall>d\<in>set coll. \<not> flt d)"
  by (auto simp: find_one_def find_None_iff)

lemma update_one_append_fresh:
  "\<forall>d\<in>set ds. \<not> flt d \<Longrightarrow> flt x \<Longrightarrow> update_one flt upd (ds @ [x]) = ds @ [upd x]"
  by (induction ds) auto

lemma insert_one_fresh:
  "new_id \<notin> doc_id ` set coll \<Longrightarrow> doc_id d = new_id \<Longrightarrow> insert_one d coll = Inr (coll @ [d])"
  by (auto simp: insert_one_def)

text \<open>
  What \<^verbatim>\<open>create_order\<close> returns and writes once the product is found and the generated
  identifier is new: the order is appended, with the payment URL when there is one.
\<close>

lemma create_order_found:
  assumes "ObjectId (product_id ordr) = Some pid"
    and "find_one (\<lambda>p. p_id p = pid) (coll_product s) = Some prd"
    and "new_id \<notin> doc_id ` set (coll_order s)"
    and "pm = (if truthy (payment_method_code ordr)
               then find_one
                      (\<lambda>m. Some (pm_code m) = payment_method_code ordr \<and> pm_is_active m)
                      (coll_paymentmethod s)
               else None)"
    and "pay_url = (case mock_gateway pm of
                      None \<Rightarrow> None
                    | Some g \<Rightarrow> Some (''https://pay.mock/'' @ gateway_str g @ ''/'' @ new_id))"
  shows "create_order s ordr new_id now_c now_u =
           (Inr \<lparr> r_id = new_id, r_payment_url = pay_url,
                   r_total_price = py_round (order_total pm (order_base prd ordr)) 2 \<rparr>,
            s\<lparr>coll_order := coll_order s @
                [\<lparr> user_id = user_id ordr,
                   product_id = product_id ordr,
                   amount = amount ordr,
                   target_id = target_id ordr,
                   status = Pending,
                   provider =
                     (case provider ordr of
                        Some v \<Rightarrow> Some v
                      | None \<Rightarrow>
                          (case p_provider prd of Some v \<Rightarrow> Some v | None \<Rightarrow> Some Manual)),
                   payment_method_code = payment_method_code ordr,
                   payment_reference = payment_reference ordr,
                   payment_url = (case pay_url of None \<Rightarrow> payment_url ordr | Some u \<Rightarrow> Some u),
                   total_price = py_round (order_total pm (order_base prd ordr)) 2,
                   order_note = order_note ordr,
                   created_at = now_c,
                   updated_at = now_u,
                   doc_id = new_id \<rparr>]\<rparr>)"
proof -
  have fresh: "\<forall>d\<in>set (coll_order s). \<not> doc_id d = new_id"
    using assms(3) by auto
  show ?thesis
    unfolding assms(4,5)
    by (simp add: create_order_def oid_def assms(1,2) Let_def insert_one_fresh [OF assms(3)]
          update_one_append_fresh [OF fresh] split: option.splits)
qed

lemma ObjectId_ex_pid: "ObjectId ex_pid = Some ex_pid"
  by (simp add: ObjectId_def ex_pid_def is_hex_def is_space_def hex_lower_def)

lemma ObjectId_ex_cheap_pid: "ObjectId ex_cheap_pid = Some ex_cheap_pid"
  by (simp add: ObjectId_def ex_cheap_pid_def is_hex_def is_space_def hex_lower_def)

subsection \<open>Unknown products\<close>

text \<open>
  Claim C3, as the code has it. When the \<open>product_id\<close> of the request identifies no stored
  product, \<^verbatim>\<open>create_order\<close> fails and leaves the whole database as it was. The failure
  is 400 \<^verbatim>\<open>Invalid id\<close> when the identifier constructor rejects the \<open>product_id\<close>, and
  404 \<^verbatim>\<open>Product not found\<close> when it accepts it.
\<close>

theorem create_order_unknown_product:
  assumes "\<forall>p\<in>set (coll_product s). ObjectId (product_id ordr) \<noteq> Some (p_id p)"
  shows "create_order s ordr new_id now_c now_u =
           (case ObjectId (product_id ordr) of
              None \<Rightarrow> (Inl (BadRequest ''Invalid id''), s)
            | Some i \<Rightarrow> (Inl (NotFound ''Product not found''), s))"
proof (cases "ObjectId (product_id ordr)")
  case None
  then show ?thesis by (simp add: create_order_def oid_def)
next
  case (Some i)
  with assms have "find_one (\<lambda>p. p_id p = i) (coll_product s) = None"
    by (auto simp: find_one_None_iff)
  with Some show ?thesis by (simp add: create_order_def oid_def)
qed

text \<open>
  An identifier of 22 hexadecimal digits and two blanks is accepted by the constructor;
  no product has it, and the failure is 404.
\<close>

theorem create_order_unknown_product_witness:
  "create_order ex_db (ex_request\<lparr>product_id := ''64b7f0a1c2d3e4f5a6b7c8  ''\<rparr>) ex_new_id 1 2
     = (Inl (NotFound ''Product not found''), ex_db)"
proof -
  have o: "ObjectId ''64b7f0a1c2d3e4f5a6b7c8  '' = Some ''64b7f0a1c2d3e4f5a6b7c8''"
    by (simp add: ObjectId_def is_hex_def is_space_def hex_lower_def)
  have h: "\<forall>p\<in>set (coll_product ex_db).
             ObjectId (product_id (ex_request\<lparr>product_id := ''64b7f0a1c2d3e4f5a6b7c8  ''\<rparr>))
               \<noteq> Some (p_id p)"
    by (simp add: o ex_db_def ex_product_def ex_cheap_def ex_pid_def ex_cheap_pid_def)
  show ?thesis
    using create_order_unknown_product [OF h, of ex_new_id 1 2] by (simp add: o)
qed

text \<open>
  The identifier \<^verbatim>\<open>X\<close> of the specification's example is rejected by the constructor: the
  failure is 400.
\<close>

theorem create_order_unknown_product_counterexample:
  "create_order ex_db (ex_request\<lparr>product_id := ''X''\<rparr>) ex_new_id 1 2
     = (Inl (BadRequest ''Invalid id''), ex_db)
   \<and> fst (create_order ex_db (ex_request\<lparr>product_id := ''X''\<rparr>) ex_new_id 1 2)
     \<noteq> Inl (NotFound ''Product not found'')"
  by (simp add: create_order_def oid_def ObjectId_def)

subsection \<open>Client-supplied fields\<close>

lemma create_order_success:
  assumes "create_order s ordr new_id now_c now_u = (Inr resp, s')"
  shows "\<exists>pid prd. ObjectId (product_id ordr) = Some pid
           \<and> find_one (\<lambda>p. p_id p = pid) (coll_product s) = Some prd
           \<and> new_id \<notin> doc_id ` set (coll_order s)"
  using assms
  by (auto simp: create_order_def oid_def insert_one_def Let_def
      split: option.splits sum.splits if_splits)

text \<open>
  Claim C10. The request model has no \<open>created_at\<close> and no \<open>updated_at\<close>, so the client
  cannot supply them; it has a \<open>status\<close> and a \<open>total_price\<close>, and \<^verbatim>\<open>create_order\<close> does not
  read them: whenever it succeeds, it succeeds with the same response and the same
  database for every other \<open>status\<close> and \<open>total_price\<close> in the request, and the order it
  appends has the status \<^verbatim>\<open>pending\<close>, the rounded total computed from the stored product
  and payment method (which is also the returned one), and the two clock readings as
  \<open>created_at\<close> and \<open>updated_at\<close>.
\<close>

theorem create_order_ignores_client_fields:
  assumes "create_order s ordr new_id now_c now_u = (Inr resp, s')"
  shows "create_order s (ordr\<lparr>status := st, total_price := tp\<rparr>) new_id now_c now_u
           = (Inr resp, s')
         \<and> (\<exists>prd doc.
               find_one (\<lambda>p. Some (p_id p) = ObjectId (product_id ordr)) (coll_product s)
                 = Some prd
               \<and> coll_order s' = coll_order s @ [doc]
               \<and> doc_id doc = new_id
               \<and> status doc = Pending
               \<and> total_price doc =
                   py_round
                     (order_total
                        (if truthy (payment_method_code ordr)
                         then find_one
                                (\<lambda>m. Some (pm_code m) = payment_method_code ordr
                                   \<and> pm_is_active m)
                                (coll_paymentmethod s)
                         else None)
                        (order_base prd ordr)) 2
               \<and> total_price doc = r_total_price resp
               \<and> created_at doc = now_c
               \<and> updated_at doc = now_u)"
proof -
  have same: "create_order s (ordr\<lparr>status := st, total_price := tp\<rparr>) new_id now_c now_u
                = create_order s ordr new_id now_c now_u"
    by (simp add: create_order_def order_base_def Let_def split: option.splits sum.splits)
  from create_order_success [OF assms] obtain pid prd
    where pid: "ObjectId (product_id ordr) = Some pid"
      and prd: "find_one (\<lambda>p. p_id p = pid) (coll_product s) = Some prd"
      and fresh: "new_id \<notin> doc_id ` set (coll_order s)"
    by blast
  have prd': "find_one (\<lambda>p. Some (p_id p) = ObjectId (product_id ordr)) (coll_product s)
                = Some prd"
    using prd by (simp add: pid eq_commute)
  note found = create_order_found [OF pid prd fresh refl refl, of now_c now_u]
  from assms [unfolded found] have resp: "r_total_price resp = py_round
                     (order_total
                        (if truthy (payment_method_code ordr)
                         then find_one
                                (\<lambda>m. Some (pm_code m) = payment_method_code ordr
                                   \<and> pm_is_active m)
                                (coll_paymentmethod s)
                         else None)
                        (order_base prd ordr)) 2"
    by auto
  from assms [unfolded found] have s': "coll_order s' = coll_order (snd (create_order s ordr new_id now_c now_u))"
    using assms by simp
  show ?thesis
    unfolding same
    apply (intro conjI exI)
           apply (rule assms)
          apply (rule prd')
         apply (simp add: s' found)
        apply (simp_all add: resp)
    done
qed

theorem create_order_ignores_client_fields_witness:
  "\<exists>resp s'.
     create_order ex_db ex_request ex_new_id 1 2 = (Inr resp, s')
     \<and> create_order ex_db (ex_request\<lparr>status := Paid, total_price := 5\<rparr>) ex_new_id 1 2
         = (Inr resp, s')
     \<and> (\<exists>doc. coll_order s' = [doc] \<and> status doc = Pending \<and> total_price doc = 205000
            \<and> r_total_price resp = 205000 \<and> created_at doc = 1 \<and> updated_at doc = 2)"
proof -
  have h1: "ObjectId (product_id ex_request) = Some ex_pid"
    by (simp add: ex_request_def ObjectId_ex_pid)
  have h2: "find_one (\<lambda>p. p_id p = ex_pid) (coll_product ex_db) = Some ex_product"
    by (simp add: find_one_def ex_db_def ex_product_def)
  have h4: "ex_new_id \<notin> doc_id ` set (coll_order ex_db)"
    by (simp add: ex_db_def)
  have p: "find_one (\<lambda>p. Some (p_id p) = ObjectId (product_id ex_request)) (coll_product ex_db)
             = Some ex_product"
    by (simp add: h1 find_one_def ex_db_def ex_product_def)
  have t: "py_round
             (order_total
                (if truthy (payment_method_code ex_request)
                 then find_one
                        (\<lambda>m. Some (pm_code m) = payment_method_code ex_request
                           \<and> pm_is_active m)
                        (coll_paymentmethod ex_db)
                 else None)
                (order_base ex_product ex_request)) 2 = 205000"
    by (simp add: ex_request_def ex_db_def ex_method_def ex_product_def find_one_def
        order_total_def order_base_def py_round_def round_half_even_def Let_def)
  note found = create_order_found [OF h1 h2 h4 refl refl, of 1 2]
  show ?thesis
    using create_order_ignores_client_fields [OF found, where st = Paid and tp = 5] found
    by (auto simp: p t ex_db_def)
qed

subsection \<open>The calculator\<close>

text \<open>
  Claim C9, as the code has it. \<^verbatim>\<open>calc_total\<close> is a function of its payload alone: it
  neither reads nor writes the database. For a stored product of price \<open>price\<close>, an active
  payment method with the fees \<open>f\<close> and \<open>c\<close>, and the amount of the request, its \<open>total\<close> is
  the \<open>total_price\<close> which \<^verbatim>\<open>create_order\<close> returns. Its \<open>base\<close> is the base of
  \<^verbatim>\<open>create_order\<close> rounded to two decimals, not that base itself.
\<close>

theorem calc_total_mirrors_create_order:
  assumes "ObjectId (product_id ordr) = Some pid"
    and "find_one (\<lambda>p. p_id p = pid) (coll_product s) = Some prd"
    and "p_price prd = Some price"
    and "new_id \<notin> doc_id ` set (coll_order s)"
    and "payment_method_code ordr = Some code" and "code \<noteq> []"
    and "find_one (\<lambda>m. pm_code m = code \<and> pm_is_active m) (coll_paymentmethod s) = Some m"
    and "pm_fee_percent m = Some f" and "pm_fee_flat m = Some c"
    and "payload = \<lparr> c_price = price, c_amount = amount ordr, c_fee_percent = f,
                      c_fee_flat = c \<rparr>"
  shows "\<exists>resp s'.
           create_order s ordr new_id now_c now_u = (Inr resp, s')
           \<and> total (calc_total payload) = r_total_price resp
           \<and> base (calc_total payload) = py_round (order_base prd ordr) 2"
proof -
  have pm: "(if truthy (payment_method_code ordr)
             then find_one
                    (\<lambda>m. Some (pm_code m) = payment_method_code ordr \<and> pm_is_active m)
                    (coll_paymentmethod s)
             else None) = Some m"
    using assms(5,6,7) by simp
  show ?thesis
    apply (intro exI conjI)
      apply (rule create_order_found [OF assms(1) assms(2) assms(4) pm [symmetric] refl])
     apply (simp_all add: calc_total_def Let_def order_total_def order_base_def assms(3,8,9,10))
    done
qed

theorem calc_total_mirrors_create_order_witness:
  "\<exists>resp s'.
     create_order ex_db ex_request ex_new_id 1 2 = (Inr resp, s')
     \<and> total (calc_total \<lparr> c_price = 100000, c_amount = 2, c_fee_percent = 2,
                  c_fee_flat = 1000 \<rparr>) = r_total_price resp
     \<and> base (calc_total \<lparr> c_price = 100000, c_amount = 2, c_fee_percent = 2,
                  c_fee_flat = 1000 \<rparr>) = py_round (order_base ex_product ex_request) 2"
proof -
  have h1: "ObjectId (product_id ex_request) = Some ex_pid"
    by (simp add: ex_request_def ObjectId_ex_pid)
  have h2: "find_one (\<lambda>p. p_id p = ex_pid) (coll_product ex_db) = Some ex_product"
    by (simp add: find_one_def ex_db_def ex_product_def)
  have h3: "p_price ex_product = Some 100000"
    by (simp add: ex_product_def)
  have h4: "ex_new_id \<notin> doc_id ` set (coll_order ex_db)"
    by (simp add: ex_db_def)
  have h5: "payment_method_code ex_request = Some ''qris''"
    by (simp add: ex_request_def)
  have h6: "''qris'' \<noteq> []"
    by simp
  have h7: "find_one (\<lambda>m. pm_code m = ''qris'' \<and> pm_is_active m) (coll_paymentmethod ex_db)
              = Some ex_method"
    by (simp add: find_one_def ex_db_def ex_method_def)
  have h8: "pm_fee_percent ex_method = Some 2" and h9: "pm_fee_flat ex_method = Some 1000"
    by (simp_all add: ex_method_def)
  have h10: "\<lparr> c_price = 100000, c_amount = 2, c_fee_percent = 2, c_fee_flat = 1000 \<rparr>
               = \<lparr> c_price = 100000, c_amount = amount ex_request, c_fee_percent = 2,
                   c_fee_flat = 1000 \<rparr>"
    by (simp add: ex_request_def)
  show ?thesis
    by (rule calc_total_mirrors_create_order [OF h1 h2 h3 h4 h5 h6 h7 h8 h9 h10])
qed

text \<open>
  For the price 0.004 and one unit, \<^verbatim>\<open>calc_total\<close> returns the base 0, while the base of
  \<^verbatim>\<open>create_order\<close> is 0.004.
\<close>

theorem calc_total_mirrors_create_order_counterexample:
  "base (calc_total \<lparr> c_price = 1 / 250, c_amount = 1, c_fee_percent = 0, c_fee_flat = 0 \<rparr>)
     \<noteq> order_base ex_cheap
         (ex_request\<lparr>product_id := ex_cheap_pid, amount := 1,
            payment_method_code := Some ''cash''\<rparr>)"
proof -
  have "py_round (1 / 250) 2 = 0"
    by code_simp
  then show ?thesis
    by (simp add: calc_total_def Let_def order_base_def ex_cheap_def)
qed

subsection \<open>Webhook failures\<close>

text \<open>
  Claim C8. When the body carries no reference (or an empty one) and the query string
  carries none (or an empty one), \<^verbatim>\<open>payment_webhook\<close> fails with 400
  \<^verbatim>\<open>Missing reference\<close> and the database is as it was.
\<close>

theorem webhook_missing_reference:
  "\<not> truthy (w_reference payload) \<Longrightarrow> \<not> truthy query_reference \<Longrightarrow>
   payment_webhook s payload query_reference now = (Inl (BadRequest ''Missing reference''), s)"
  by (simp add: payment_webhook_def)

theorem webhook_missing_reference_witness:
  "payment_webhook ex_shop \<lparr>w_reference = None, w_status = WPaid\<rparr> None 20
     = (Inl (BadRequest ''Missing reference''), ex_shop)"
proof -
  have h1: "\<not> truthy (w_reference \<lparr>w_reference = None, w_status = WPaid\<rparr>)"
    by simp
  have h2: "\<not> truthy None"
    by simp
  show ?thesis
    by (rule webhook_missing_reference [OF h1 h2])
qed

text \<open>
  Claim C7. Let \<open>r\<close> be the reference of the call: the one of the body, or else the one
  of the query string. When no stored order has \<open>r\<close> as its \<open>payment_reference\<close> and \<open>r\<close> is
  not the identifier of a stored order (be it because \<open>r\<close> is not a well-formed identifier
  at all), \<^verbatim>\<open>payment_webhook\<close> fails with 404 \<^verbatim>\<open>Order not found\<close> and the database is as
  it was.
\<close>

theorem webhook_unknown_reference:
  assumes "(if truthy (w_reference payload) then w_reference payload else query_reference) = Some r"
    and "r \<noteq> []"
    and "\<forall>d\<in>set (coll_order s). payment_reference d \<noteq> Some r \<and> ObjectId r \<noteq> Some (doc_id d)"
  shows "payment_webhook s payload query_reference now = (Inl (NotFound ''Order not found''), s)"
proof -
  have a: "find_one (\<lambda>d. payment_reference d = Some r) (coll_order s) = None"
    using assms(3) by (simp add: find_one_None_iff)
  have b: "\<And>i. ObjectId r = Some i \<Longrightarrow> find_one (\<lambda>d. doc_id d = i) (coll_order s) = None"
    using assms(3) by (auto simp: find_one_None_iff)
  show ?thesis
    using assms(1,2) a b
    by (auto simp: payment_webhook_def Let_def oid_def split: option.splits sum.splits)
qed

theorem webhook_unknown_reference_witness:
  "payment_webhook ex_shop \<lparr>w_reference = Some ''abc123'', w_status = WPaid\<rparr> None 20
     = (Inl (NotFound ''Order not found''), ex_shop)"
proof -
  let ?p = "\<lparr>w_reference = Some ''abc123'', w_status = WPaid\<rparr>"
  have h1: "(if truthy (w_reference ?p) then w_reference ?p else None) = Some ''abc123''"
    by simp
  have h2: "''abc123'' \<noteq> []"
    by simp
  have h3: "\<forall>d\<in>set (coll_order ex_shop).
              payment_reference d \<noteq> Some ''abc123'' \<and> ObjectId ''abc123'' \<noteq> Some (doc_id d)"
    by (simp add: ex_shop_def ex_stored_def ObjectId_def)
  show ?thesis
    by (rule webhook_unknown_reference [OF h1 h2 h3])
qed

subsection \<open>Webhook updates\<close>

lemma find_one_SomeD: "find_one flt coll = Some d \<Longrightarrow> d \<in> set coll \<and> flt d"
  by (auto simp: find_one_def find_Some_iff)

lemma update_one_first:
  "\<exists>x\<in>set xs. flt x \<Longrightarrow>
   \<exists>i<length xs. flt (xs ! i) \<and> (\<forall>j<i. \<not> flt (xs ! j))
     \<and> (\<forall>upd. update_one flt upd xs = xs[i := upd (xs ! i)])"
proof (induction xs)
  case Nil
  then show ?case by simp
next
  case (Cons x xs)
  show ?case
  proof (cases "flt x")
    case True
    then have "0 < length (x # xs) \<and> flt ((x # xs) ! 0) \<and> (\<forall>j<0. \<not> flt ((x # xs) ! j))
      \<and> (\<forall>upd. update_one flt upd (x # xs) = (x # xs)[0 := upd ((x # xs) ! 0)])"
      by simp
    then show ?thesis by blast
  next
    case False
    with Cons.prems have "\<exists>y\<in>set xs. flt y" by auto
    from Cons.IH [OF this] obtain i where i: "i < length xs" "flt (xs ! i)"
      "\<forall>j<i. \<not> flt (xs ! j)" "\<forall>upd. update_one flt upd xs = xs[i := upd (xs ! i)]"
      by blast
    have "\<forall>j<Suc i. \<not> flt ((x # xs) ! j)"
      using False i(3) by (auto simp: less_Suc_eq_0_disj)
    with i False have "Suc i < length (x # xs) \<and> flt ((x # xs) ! Suc i)
      \<and> (\<forall>j<Suc i. \<not> flt ((x # xs) ! j))
      \<and> (\<forall>upd. update_one flt upd (x # xs) = (x # xs)[Suc i := upd ((x # xs) ! Suc i)])"
      by simp
    then show ?thesis by blast
  qed
qed

lemma update_one_at:
  "i < length xs \<Longrightarrow> flt (xs ! i) \<Longrightarrow> \<forall>j<i. \<not> flt (xs ! j) \<Longrightarrow>
   update_one flt upd xs = xs[i := upd (xs ! i)]"
proof (induction xs arbitrary: i)
  case Nil
  then show ?case by simp
next
  case (Cons x xs)
  show ?case
  proof (cases i)
    case 0
    with Cons.prems show ?thesis by simp
  next
    case (Suc k)
    with Cons.prems have "\<not> flt x" by auto
    moreover have "update_one flt upd xs = xs[k := upd (xs ! k)]"
      using Cons.prems Suc by (intro Cons.IH) auto
    ultimately show ?thesis using Suc by simp
  qed
qed

lemma payment_webhook_cases:
  assumes "(if truthy (w_reference payload) then w_reference payload else q) = Some r"
    and "r \<noteq> []"
  shows "payment_webhook s payload q now =
      (case (case find_one (\<lambda>d. payment_reference d = Some r) (coll_order s) of
                    Some d \<Rightarrow> Some d
                  | None \<Rightarrow>
                      (case oid r of
                         Inl e \<Rightarrow> None
                       | Inr i \<Rightarrow> find_one (\<lambda>d. doc_id d = i) (coll_order s))) of
         None \<Rightarrow> (Inl (HTTPException 404 ''Order not found''), s)
       | Some d \<Rightarrow>
           (Inr True,
            s\<lparr>coll_order :=
                update_one (\<lambda>x. doc_id x = doc_id d)
                  (\<lambda>x. x\<lparr>status := status_of (w_status payload), updated_at := now\<rparr>)
                  (coll_order s)\<rparr>))"
  using assms by (simp add: payment_webhook_def Let_def cong: option.case_cong)

lemma find_one_list_update:
  assumes "\<And>x. flt (upd x) = flt x"
  shows "(find_one flt xs = None \<longrightarrow> find_one flt (xs[i := upd (xs ! i)]) = None)
       \<and> (\<forall>a. find_one flt xs = Some a \<longrightarrow>
            find_one flt (xs[i := upd (xs ! i)]) = Some a
            \<or> find_one flt (xs[i := upd (xs ! i)]) = Some (upd a))"
proof (induction xs arbitrary: i)
  case Nil
  then show ?case by (simp add: find_one_def)
next
  case (Cons x xs)
  show ?case
  proof (cases i)
    case 0
    then show ?thesis
      using assms by (simp add: find_one_def)
  next
    case (Suc k)
    then show ?thesis
      using Cons.IH [of k] by (simp add: find_one_def)
  qed
qed

text \<open>The order which the two lookups of the webhook resolve.\<close>

lemma payment_webhook_success:
  assumes "payment_webhook s payload q now = (Inr ok, s')"
  shows "\<exists>r d. (if truthy (w_reference payload) then w_reference payload else q) = Some r
           \<and> r \<noteq> [] \<and> d \<in> set (coll_order s)
           \<and> (payment_reference d = Some r \<or> ObjectId r = Some (doc_id d))
           \<and> (case find_one (\<lambda>d. payment_reference d = Some r) (coll_order s) of
                 Some d \<Rightarrow> Some d
               | None \<Rightarrow>
                   (case oid r of
                      Inl e \<Rightarrow> None
                    | Inr i \<Rightarrow> find_one (\<lambda>d. doc_id d = i) (coll_order s))) = Some d
           \<and> ok
           \<and> s' = s\<lparr>coll_order :=
                      update_one (\<lambda>x. doc_id x = doc_id d)
                        (\<lambda>x. x\<lparr>status := status_of (w_status payload), updated_at := now\<rparr>)
                        (coll_order s)\<rparr>"
proof -
  let ?ref = "if truthy (w_reference payload) then w_reference payload else q"
  from assms have t: "truthy ?ref"
    by (auto simp: payment_webhook_def Let_def split: if_splits)
  then obtain r where r: "?ref = Some r" "r \<noteq> []"
    by (cases ?ref) auto
  let ?found = "case find_one (\<lambda>d. payment_reference d = Some r) (coll_order s) of
                    Some d \<Rightarrow> Some d
                  | None \<Rightarrow>
                      (case oid r of
                         Inl e \<Rightarrow> None
                       | Inr i \<Rightarrow> find_one (\<lambda>d. doc_id d = i) (coll_order s))"
  note pw = payment_webhook_cases [OF r, of s now]
  from assms pw obtain d where d: "?found = Some d"
    by (cases ?found) auto
  have "d \<in> set (coll_order s) \<and> (payment_reference d = Some r \<or> ObjectId r = Some (doc_id d))"
    using d
    by (auto simp: oid_def split: option.splits sum.splits dest!: find_one_SomeD)
  with assms pw d r show ?thesis
    by auto
qed

lemma lookup_list_update:
  fixes xs :: "order_doc list"
  assumes "\<And>x. payment_reference (upd x) = payment_reference x"
    and "\<And>x. doc_id (upd x) = doc_id x"
    and "(case find_one (\<lambda>d. payment_reference d = Some r) xs of
                 Some d \<Rightarrow> Some d
               | None \<Rightarrow>
                   (case oid r of
                      Inl e \<Rightarrow> None
                    | Inr i \<Rightarrow> find_one (\<lambda>d. doc_id d = i) xs)) = Some d"
  shows "\<exists>d'. (case find_one (\<lambda>d. payment_reference d = Some r) (xs[i := upd (xs ! i)]) of
                 Some d \<Rightarrow> Some d
               | None \<Rightarrow>
                   (case oid r of
                      Inl e \<Rightarrow> None
                    | Inr j \<Rightarrow> find_one (\<lambda>d. doc_id d = j) (xs[i := upd (xs ! i)]))) = Some d'
           \<and> doc_id d' = doc_id d"
proof (cases "find_one (\<lambda>d. payment_reference d = Some r) xs")
  case (Some a)
  with assms(3) have "a = d" by simp
  with Some find_one_list_update [of "\<lambda>d. payment_reference d = Some r" upd xs i] assms(1,2)
  show ?thesis by auto
next
  case None
  with assms(3) obtain j where j: "oid r = Inr j" "find_one (\<lambda>d. doc_id d = j) xs = Some d"
    by (auto split: sum.splits)
  from None find_one_list_update [of "\<lambda>d. payment_reference d = Some r" upd xs i] assms(1)
  have "find_one (\<lambda>d. payment_reference d = Some r) (xs[i := upd (xs ! i)]) = None"
    by simp
  with j find_one_list_update [of "\<lambda>d. doc_id d = j" upd xs i] assms(2)
  show ?thesis by auto
qed

lemma payment_webhook_index:
  assumes "payment_webhook s payload q now = (Inr ok, s')"
  shows "\<exists>r d i. (if truthy (w_reference payload) then w_reference payload else q) = Some r
           \<and> r \<noteq> [] \<and> d \<in> set (coll_order s)
           \<and> (payment_reference d = Some r \<or> ObjectId r = Some (doc_id d))
           \<and> (case find_one (\<lambda>d. payment_reference d = Some r) (coll_order s) of
                 Some d \<Rightarrow> Some d
               | None \<Rightarrow>
                   (case oid r of
                      Inl e \<Rightarrow> None
                    | Inr i \<Rightarrow> find_one (\<lambda>d. doc_id d = i) (coll_order s))) = Some d
           \<and> i < length (coll_order s)
           \<and> doc_id (coll_order s ! i) = doc_id d
           \<and> (\<forall>j<i. doc_id (coll_order s ! j) \<noteq> doc_id d)
           \<and> s' = s\<lparr>coll_order :=
                      (coll_order s)
                        [i := (coll_order s ! i)
                           \<lparr>status := status_of (w_status payload), updated_at := now\<rparr>]\<rparr>"
proof -
  from payment_webhook_success [OF assms] obtain r d where
    rd: "(if truthy (w_reference payload) then w_reference payload else q) = Some r"
      "r \<noteq> []" "d \<in> set (coll_order s)"
      "payment_reference d = Some r \<or> ObjectId r = Some (doc_id d)"
      "(case find_one (\<lambda>d. payment_reference d = Some r) (coll_order s) of
                 Some d \<Rightarrow> Some d
               | None \<Rightarrow>
                   (case oid r of
                      Inl e \<Rightarrow> None
                    | Inr i \<Rightarrow> find_one (\<lambda>d. doc_id d = i) (coll_order s))) = Some d"
      "s' = s\<lparr>coll_order :=
                      update_one (\<lambda>x. doc_id x = doc_id d)
                        (\<lambda>x. x\<lparr>status := status_of (w_status payload), updated_at := now\<rparr>)
                        (coll_order s)\<rparr>"
    by blast
  from rd(3) have "\<exists>x\<in>set (coll_order s). doc_id x = doc_id d"
    by blast
  from update_one_first [OF this] obtain i where
    i: "i < length (coll_order s)" "doc_id (coll_order s ! i) = doc_id d"
      "\<forall>j<i. doc_id (coll_order s ! j) \<noteq> doc_id d"
      "\<forall>upd. update_one (\<lambda>x. doc_id x = doc_id d) upd (coll_order s)
         = (coll_order s)[i := upd (coll_order s ! i)]"
    by blast
  from rd i show ?thesis
    by auto
qed

text \<open>
  Claim C4. Whenever \<^verbatim>\<open>payment_webhook\<close> succeeds, the database it leaves is the given one
  with one stored order changed, and that order differs from what it was in its \<open>status\<close>,
  now the status of the call, and its \<open>updated_at\<close>, now the clock reading, only: every
  other field of it, every other order and every other collection is as before.
\<close>

theorem webhook_frame:
  assumes "payment_webhook s payload q now = (Inr ok, s')"
  shows "\<exists>i<length (coll_order s).
           s' = s\<lparr>coll_order :=
                    (coll_order s)
                      [i := (coll_order s ! i)
                         \<lparr>status := status_of (w_status payload), updated_at := now\<rparr>]\<rparr>"
  using payment_webhook_index [OF assms] by blast

theorem webhook_frame_witness:
  "\<exists>s' i.
     payment_webhook ex_shop \<lparr>w_reference = Some ''INV-1'', w_status = WFailed\<rparr> None 20
       = (Inr True, s')
     \<and> i < length (coll_order ex_shop)
     \<and> s' = ex_shop\<lparr>coll_order :=
           (coll_order ex_shop)
             [i := (coll_order ex_shop ! i)\<lparr>status := Failed, updated_at := 20\<rparr>]\<rparr>"
proof -
  let ?p = "\<lparr>w_reference = Some ''INV-1'', w_status = WFailed\<rparr>"
  have "fst (payment_webhook ex_shop ?p None 20) = Inr True"
    by (simp add: payment_webhook_def Let_def find_one_def ex_shop_def ex_stored_def)
  then have h: "payment_webhook ex_shop ?p None 20
                  = (Inr True, snd (payment_webhook ex_shop ?p None 20))"
    by (simp add: prod_eq_iff)
  from webhook_frame [OF h] obtain i where
    "i < length (coll_order ex_shop)"
    "snd (payment_webhook ex_shop ?p None 20) = ex_shop\<lparr>coll_order :=
           (coll_order ex_shop)
             [i := (coll_order ex_shop ! i)\<lparr>status := Failed, updated_at := 20\<rparr>]\<rparr>"
    by auto
  with h show ?thesis
    by blast
qed

text \<open>
  Claim C5. When \<^verbatim>\<open>payment_webhook\<close> has succeeded, the same call again (same body, same
  query string, any later clock reading) succeeds too, resolves the same order, and
  leaves the database of the first call with nothing but the \<open>updated_at\<close> of that order
  changed.
\<close>

theorem webhook_idempotent:
  assumes "payment_webhook s payload q now1 = (Inr ok, s1)"
  shows "\<exists>i<length (coll_order s).
           s1 = s\<lparr>coll_order :=
                    (coll_order s)
                      [i := (coll_order s ! i)
                         \<lparr>status := status_of (w_status payload), updated_at := now1\<rparr>]\<rparr>
           \<and> payment_webhook s1 payload q now2 =
               (Inr True,
                s1\<lparr>coll_order :=
                     (coll_order s1)[i := (coll_order s1 ! i)\<lparr>updated_at := now2\<rparr>]\<rparr>)"
proof -
  let ?st = "status_of (w_status payload)"
  let ?f1 = "\<lambda>x::order_doc. x\<lparr>status := ?st, updated_at := now1\<rparr>"
  let ?f2 = "\<lambda>x::order_doc. x\<lparr>status := ?st, updated_at := now2\<rparr>"
  let ?xs = "coll_order s"
  from payment_webhook_index [OF assms] obtain r d i where
    r: "(if truthy (w_reference payload) then w_reference payload else q) = Some r" "r \<noteq> []"
    and found: "(case find_one (\<lambda>d. payment_reference d = Some r) ?xs of
                   Some d \<Rightarrow> Some d
                 | None \<Rightarrow>
                     (case oid r of
                        Inl e \<Rightarrow> None
                      | Inr i \<Rightarrow> find_one (\<lambda>d. doc_id d = i) ?xs)) = Some d"
    and i: "i < length ?xs" "doc_id (?xs ! i) = doc_id d"
      "\<forall>j<i. doc_id (?xs ! j) \<noteq> doc_id d"
    and s1: "s1 = s\<lparr>coll_order := ?xs[i := ?f1 (?xs ! i)]\<rparr>"
    by blast
  let ?ys = "?xs[i := ?f1 (?xs ! i)]"
  have ys: "coll_order s1 = ?ys"
    by (simp add: s1)
  from lookup_list_update [where upd = ?f1 and i = i, OF _ _ found] obtain d' where
    d': "(case find_one (\<lambda>d. payment_reference d = Some r) ?ys of
            Some d \<Rightarrow> Some d
          | None \<Rightarrow>
              (case oid r of
                 Inl e \<Rightarrow> None
               | Inr j \<Rightarrow> find_one (\<lambda>d. doc_id d = j) ?ys)) = Some d'"
      "doc_id d' = doc_id d"
    by auto
  have second: "payment_webhook s1 payload q now2 =
      (Inr True, s1\<lparr>coll_order := update_one (\<lambda>x. doc_id x = doc_id d) ?f2 ?ys\<rparr>)"
    using payment_webhook_cases [OF r, of s1 now2, unfolded ys d'(1)] by (simp add: d'(2) ys)
  have at: "update_one (\<lambda>x. doc_id x = doc_id d) ?f2 ?ys = ?ys[i := ?f2 (?ys ! i)]"
  proof (rule update_one_at)
    show "i < length ?ys" using i(1) by simp
    show "doc_id (?ys ! i) = doc_id d" using i(1,2) by simp
    show "\<forall>j<i. doc_id (?ys ! j) \<noteq> doc_id d" using i(3) by simp
  qed
  have "?f2 (?ys ! i) = (?ys ! i)\<lparr>updated_at := now2\<rparr>"
    using i(1) by simp
  with at have "update_one (\<lambda>x. doc_id x = doc_id d) ?f2 ?ys
                  = (coll_order s1)[i := (coll_order s1 ! i)\<lparr>updated_at := now2\<rparr>]"
    by (simp only: ys)
  with second s1 i(1) show ?thesis
    by auto
qed

theorem webhook_idempotent_witness:
  "\<exists>s1 i.
     payment_webhook ex_shop \<lparr>w_reference = Some ''INV-2'', w_status = WPaid\<rparr> None 20
       = (Inr True, s1)
     \<and> i < length (coll_order ex_shop)
     \<and> s1 = ex_shop\<lparr>coll_order :=
           (coll_order ex_shop)
             [i := (coll_order ex_shop ! i)\<lparr>status := Paid, updated_at := 20\<rparr>]\<rparr>
     \<and> payment_webhook s1 \<lparr>w_reference = Some ''INV-2'', w_status = WPaid\<rparr> None 30
       = (Inr True,
          s1\<lparr>coll_order := (coll_order s1)[i := (coll_order s1 ! i)\<lparr>updated_at := 30\<rparr>]\<rparr>)"
proof -
  let ?p = "\<lparr>w_reference = Some ''INV-2'', w_status = WPaid\<rparr>"
  have "fst (payment_webhook ex_shop ?p None 20) = Inr True"
    by (simp add: payment_webhook_def Let_def find_one_def ex_shop_def ex_stored_def)
  then have h: "payment_webhook ex_shop ?p None 20
                  = (Inr True, snd (payment_webhook ex_shop ?p None 20))"
    by (simp add: prod_eq_iff)
  let ?s1 = "snd (payment_webhook ex_shop ?p None 20)"
  from webhook_idempotent [OF h, of 30] obtain i where
    "i < length (coll_order ex_shop)"
    "?s1 = ex_shop\<lparr>coll_order :=
           (coll_order ex_shop)
             [i := (coll_order ex_shop ! i)\<lparr>status := Paid, updated_at := 20\<rparr>]\<rparr>"
    "payment_webhook ?s1 ?p None 30
       = (Inr True,
          ?s1\<lparr>coll_order := (coll_order ?s1)[i := (coll_order ?s1 ! i)\<lparr>updated_at := 30\<rparr>]\<rparr>)"
    by auto
  with h show ?thesis
    by blast
qed

subsection \<open>Top ranking\<close>

lemma ranking_rows_maps:
  "ranking_rows prods rs = Inr out \<Longrightarrow>
   map e_product_id out = map g_id rs \<and> map e_orders out = map g_orders rs
   \<and> map e_revenue out = map (\<lambda>r. py_round (g_revenue r) 2) rs"
proof (induction rs arbitrary: out)
  case Nil
  then show ?case by simp
next
  case (Cons r rs)
  from Cons.prems obtain out' where
    out': "ranking_rows prods rs = Inr out'"
      "\<exists>t. out = \<lparr> e_product_id = g_id r, e_product_title = t, e_orders = g_orders r,
                    e_revenue = py_round (g_revenue r) 2 \<rparr> # out'"
    by (auto split: sum.splits if_splits)
  from Cons.IH [OF out'(1)] out'(2) show ?case
    by auto
qed

lemma ranking_rows_total:
  "\<forall>r\<in>set rs. g_id r = [] \<or> ObjectId (g_id r) \<noteq> None \<Longrightarrow>
   \<exists>out. ranking_rows prods rs = Inr out"
  by (induction rs) (auto simp: oid_def split: option.splits)

lemma aggregate_group_ids: "map g_id (aggregate_group coll) = remdups (map product_id coll)"
  by (simp add: aggregate_group_def comp_def)

lemma aggregate_group_row:
  "r \<in> set (aggregate_group coll) \<Longrightarrow>
   g_orders r = length (filter (\<lambda>d. product_id d = g_id r) coll)
   \<and> g_revenue r = sum_list (map total_price (filter (\<lambda>d. product_id d = g_id r) coll))
   \<and> g_id r \<in> product_id ` set coll"
  by (auto simp: aggregate_group_def)

lemma aggregate_sort_set: "set (aggregate_sort rows) = set rows"
  by (simp add: aggregate_sort_def)

lemma aggregate_sort_sorted:
  "sorted_wrt (\<lambda>a b. g_orders b \<le> g_orders a) (aggregate_sort rows)"
proof -
  have "sorted (map (\<lambda>r. - int (g_orders r)) (aggregate_sort rows))"
    by (simp add: aggregate_sort_def)
  then show ?thesis
    by (simp add: sorted_map)
qed

lemma aggregate_sort_distinct:
  "distinct (map g_id rows) \<Longrightarrow> distinct (map g_id (aggregate_sort rows))"
  by (simp add: distinct_map aggregate_sort_def)

text \<open>
  Claim C6. \<^verbatim>\<open>top_ranking\<close> without a limit is \<^verbatim>\<open>top_ranking\<close> with the limit 10. Whenever
  it returns a list for the limit \<open>limit\<close>, the list has at most \<open>limit\<close> entries, its
  entries are in descending order of \<open>orders\<close>, no product occurs twice, and each entry
  holds the number of all stored orders of its product, whatever their status, and the
  sum of their \<open>total_price\<close> rounded to two decimals. It does return a list when the
  limit is positive and every stored order has an empty or well-formed \<open>product_id\<close>
  (as every order written by \<^verbatim>\<open>create_order\<close> has); the database rejects a limit which
  is not positive.
\<close>

theorem top_ranking_ok:
  "(0 < limit \<and> (\<forall>d\<in>set (coll_order s). product_id d = [] \<or> ObjectId (product_id d) \<noteq> None)
      \<longrightarrow> (\<exists>out. top_ranking s (Some limit) = Inr out))
   \<and> top_ranking s None = top_ranking s (Some 10)
   \<and> (\<forall>out. top_ranking s (Some limit) = Inr out \<longrightarrow>
         int (length out) \<le> limit
         \<and> sorted_wrt (\<lambda>a b. e_orders b \<le> e_orders a) out
         \<and> distinct (map e_product_id out)
         \<and> (\<forall>e\<in>set out.
               e_orders e =
                 length (filter (\<lambda>d. product_id d = e_product_id e) (coll_order s))
               \<and> e_revenue e =
                   py_round
                     (sum_list (map total_price
                        (filter (\<lambda>d. product_id d = e_product_id e) (coll_order s)))) 2))"
proof (intro conjI allI impI)
  assume a: "0 < limit \<and>
    (\<forall>d\<in>set (coll_order s). product_id d = [] \<or> ObjectId (product_id d) \<noteq> None)"
  let ?rows = "take (nat limit) (aggregate_sort (aggregate_group (coll_order s)))"
  have "\<forall>r\<in>set ?rows. g_id r = [] \<or> ObjectId (g_id r) \<noteq> None"
  proof
    fix r assume "r \<in> set ?rows"
    then have "r \<in> set (aggregate_group (coll_order s))"
      using aggregate_sort_set by (auto dest: in_set_takeD)
    from aggregate_group_row [OF this] a show "g_id r = [] \<or> ObjectId (g_id r) \<noteq> None"
      by auto
  qed
  from ranking_rows_total [OF this] a
  show "\<exists>out. top_ranking s (Some limit) = Inr out"
    by (simp add: top_ranking_def aggregate_limit_def)
next
  show "top_ranking s None = top_ranking s (Some 10)"
    by (simp add: top_ranking_def)
next
  fix out
  assume ok: "top_ranking s (Some limit) = Inr out"
  let ?sorted = "aggregate_sort (aggregate_group (coll_order s))"
  let ?rows = "take (nat limit) ?sorted"
  from ok have pos: "0 < limit" and rr: "ranking_rows (coll_product s) ?rows = Inr out"
    by (auto simp: top_ranking_def aggregate_limit_def split: if_splits)
  note maps = ranking_rows_maps [OF rr]
  have len: "length out = length ?rows"
    using maps by (metis length_map)
  show "int (length out) \<le> limit"
    using pos by (simp add: len)
  have "sorted_wrt (\<lambda>a b. g_orders b \<le> g_orders a) ?rows"
    using aggregate_sort_sorted [of "aggregate_group (coll_order s)"]
    by (simp add: sorted_wrt_take)
  then have "sorted_wrt (\<lambda>a b. b \<le> a) (map g_orders ?rows)"
    by (simp add: sorted_wrt_map)
  then have "sorted_wrt (\<lambda>a b. b \<le> a) (map e_orders out)"
    using maps by simp
  then show "sorted_wrt (\<lambda>a b. e_orders b \<le> e_orders a) out"
    by (simp add: sorted_wrt_map)
  have "distinct (map g_id ?sorted)"
    by (rule aggregate_sort_distinct) (simp add: aggregate_group_ids)
  then have "distinct (map g_id ?rows)"
    by (simp add: take_map [symmetric] distinct_take)
  then show "distinct (map e_product_id out)"
    using maps by simp
  show "\<forall>e\<in>set out.
               e_orders e =
                 length (filter (\<lambda>d. product_id d = e_product_id e) (coll_order s))
               \<and> e_revenue e =
                   py_round
                     (sum_list (map total_price
                        (filter (\<lambda>d. product_id d = e_product_id e) (coll_order s)))) 2"
  proof
    fix e assume "e \<in> set out"
    then obtain k where k: "k < length out" "out ! k = e"
      by (auto simp: in_set_conv_nth)
    let ?r = "?rows ! k"
    have kr: "k < length ?rows" using k(1) len by simp
    have "map e_product_id out ! k = map g_id ?rows ! k"
      "map e_orders out ! k = map g_orders ?rows ! k"
      "map e_revenue out ! k = map (\<lambda>r. py_round (g_revenue r) 2) ?rows ! k"
      using maps by simp_all
    then have e: "e_product_id e = g_id ?r" "e_orders e = g_orders ?r"
      "e_revenue e = py_round (g_revenue ?r) 2"
      using k kr by (simp_all only: nth_map)
    have "?r \<in> set ?rows" using kr by (rule nth_mem)
    then have "?r \<in> set (aggregate_group (coll_order s))"
      using aggregate_sort_set by (auto dest: in_set_takeD)
    from aggregate_group_row [OF this] e
    show "e_orders e =
                 length (filter (\<lambda>d. product_id d = e_product_id e) (coll_order s))
               \<and> e_revenue e =
                   py_round
                     (sum_list (map total_price
                        (filter (\<lambda>d. product_id d = e_product_id e) (coll_order s)))) 2"
      by simp
  qed
qed

text \<open>
  The example of the specification: three orders of one product, five of another, and
  the limit 1.
\<close>

theorem top_ranking_ok_witness:
  "\<exists>out. top_ranking ex_shop (Some 1) = Inr out
     \<and> int (length out) \<le> 1
     \<and> sorted_wrt (\<lambda>a b. e_orders b \<le> e_orders a) out
     \<and> distinct (map e_product_id out)
     \<and> out = [\<lparr> e_product_id = ex_cheap_pid, e_product_title = Some ''Token'',
                 e_orders = 5, e_revenue = 3 / 50 \<rparr>]"
proof -
  have h: "0 < (1::int) \<and>
    (\<forall>d\<in>set (coll_order ex_shop). product_id d = [] \<or> ObjectId (product_id d) \<noteq> None)"
    by (simp add: ex_shop_def ex_stored_def ObjectId_ex_pid ObjectId_ex_cheap_pid)
  note tr = top_ranking_ok [of 1 ex_shop]
  from tr h obtain out where out: "top_ranking ex_shop (Some 1) = Inr out"
    by blast
  have ev: "top_ranking ex_shop (Some 1) =
      Inr [\<lparr> e_product_id = ex_cheap_pid, e_product_title = Some ''Token'',
              e_orders = 5, e_revenue = 3 / 50 \<rparr>]"
    by code_simp
  from tr out have "int (length out) \<le> 1
      \<and> sorted_wrt (\<lambda>a b. e_orders b \<le> e_orders a) out
      \<and> distinct (map e_product_id out)"
    by blast
  with out ev show ?thesis
    by simp
qed

end
